theory Spec2Isabelle
  imports Complex_Main "HOL-Library.AList"
begin

section \<open>Python values, exceptions and the outside world\<close>

text \<open>
  The vault subsystem of \<^verbatim>\<open>zenik_tool.py\<close> is embedded function by function.
  Byte strings are lists of byte values; text is an Isabelle string. A value read from
  JSON (the vault document, the configuration) is a \<open>pyval\<close>: a finite double is
  \<open>PFloat m e\<close>, standing for \<open>m * 2 ^ e\<close>, and a dict is an association list in
  insertion order.
\<close>

type_synonym bytes = "nat list"

datatype pyval =
    PNone
  | PBool bool
  | PInt int
  | PFloat int int
  | PInf bool
  | PNaN
  | PStr string
  | PList "pyval list"
  | PDict "(string \<times> pyval) list"

datatype exn =
    InvalidToken
  | EOFError
  | TypeError
  | ValueError
  | OverflowError
  | KeyError
  | AttributeError
  | FileNotFoundError
  | IndexError
  | PyperclipException
  | Unsupported

text \<open>
  \<open>Unsupported\<close> is not a Python exception: the model raises it where the display code
  (\<^verbatim>\<open>vault_view_items\<close>, \<^verbatim>\<open>vault_pick_item\<close>, \<^verbatim>\<open>vault_copy_menu\<close>) meets a stored
  document whose items are not dicts with string fields and a list of string tags; what
  Python does with such a document is not modelled.
\<close>

text \<open>
  The third-party and built-in routines the vault calls are parameters of the model:
  \<^item> \<open>kdf password salt\<close> is \<^verbatim>\<open>urlsafe_b64encode(PBKDF2HMAC(SHA256, 32, salt, 200_000).derive(password.encode("utf-8")))\<close>;
  \<^item> \<open>fernet_encrypt key iv now raw\<close> is \<^verbatim>\<open>Fernet(key).encrypt(raw)\<close>, which draws a
    16-byte IV and reads the clock;
  \<^item> \<open>fernet_decrypt key token\<close> is \<^verbatim>\<open>Fernet(key).decrypt(token)\<close>, \<open>None\<close> when it
    raises \<^verbatim>\<open>InvalidToken\<close>;
  \<^item> \<open>json_dumps data\<close> is \<^verbatim>\<open>json.dumps(data, ensure_ascii=False, indent=2).encode("utf-8")\<close>;
  \<^item> \<open>json_loads raw\<close> is \<^verbatim>\<open>json.loads(raw.decode("utf-8"))\<close>, \<open>None\<close> when either
    step raises (both exceptions are subclasses of \<^verbatim>\<open>ValueError\<close>);
  \<^item> \<open>int_of_str s\<close> is \<^verbatim>\<open>int(s)\<close> on a string, \<open>None\<close> for \<^verbatim>\<open>ValueError\<close>;
  \<^item> \<open>strftime t\<close> is \<^verbatim>\<open>datetime.now().strftime("%Y-%m-%d %H:%M:%S")\<close> at time \<open>t\<close>.
\<close>

record 'k libs =
  kdf :: "string \<Rightarrow> bytes \<Rightarrow> 'k"
  fernet_encrypt :: "'k \<Rightarrow> bytes \<Rightarrow> real \<Rightarrow> bytes \<Rightarrow> bytes"
  fernet_decrypt :: "'k \<Rightarrow> bytes \<Rightarrow> bytes option"
  json_dumps :: "pyval \<Rightarrow> bytes"
  json_loads :: "bytes \<Rightarrow> pyval option"
  int_of_str :: "string \<Rightarrow> int option"
  strftime :: "real \<Rightarrow> string"

text \<open>
  Everything the code reads or changes outside its local variables: the files (a path
  holds a byte string or does not exist), the clock, the lines still to be typed (each with
  the time the user lets pass before submitting it), the OS clipboard together with the
  writes other programs will make to it (absolute time and text, in chronological order),
  the random source behind \<^verbatim>\<open>os.urandom\<close>, the messages given to \<^verbatim>\<open>log_event\<close>
  (one constructor of \<open>event\<close> per message of the vault, carrying what the message
  interpolates), the global \<^verbatim>\<open>CONFIG\<close> dict, the flag \<^verbatim>\<open>CLIPBOARD_OK\<close> and whether the
  import of \<^verbatim>\<open>Fernet\<close> succeeded. \<^verbatim>\<open>getpass\<close> reads from the same line source as
  \<^verbatim>\<open>input\<close>. Printing is not part of the state. Computation takes no time:
  the clock moves only while the program waits for input or sleeps.
\<close>

datatype event =
    AutoLocked
  | AddedNote
  | AddedLogin
  | Deleted string
  | PasswordCopied int
  | PasswordRevealed
  | LockedManually
  | VaultBack

record world =
  fs :: "string \<rightharpoonup> bytes"
  clock :: real
  stdin :: "(real \<times> string) list"
  clipboard :: string
  clip_writes :: "(real \<times> string) list"
  copy_raises :: bool
  paste_raises :: bool
  entropy :: "nat \<Rightarrow> nat"
  entropy_pos :: nat
  event_log :: "event list"
  CONFIG :: "(string \<times> pyval) list"
  CLIPBOARD_OK :: bool
  Fernet_imported :: bool

datatype 'a outcome = Return 'a world | Raised exn world

definition VAULT_FILE :: string where
  "VAULT_FILE = ''zenik_vault.bin''"

definition VAULT_SALT_FILE :: string where
  "VAULT_SALT_FILE = ''zenik_vault.salt''"

subsection \<open>Waiting, input and logging\<close>

fun due_writes :: "real \<Rightarrow> (real \<times> string) list \<Rightarrow> string \<Rightarrow> string \<times> (real \<times> string) list" where
  "due_writes t [] cur = (cur, [])"
| "due_writes t ((u, s) # ws) cur = (if u \<le> t then due_writes t ws s else (cur, (u, s) # ws))"

definition advance :: "real \<Rightarrow> world \<Rightarrow> world" where
  "advance d w =
     (let t = clock w + d;
          r = due_writes t (clip_writes w) (clipboard w)
      in w\<lparr>clock := t, clipboard := fst r, clip_writes := snd r\<rparr>)"

definition py_input :: "world \<Rightarrow> string outcome" where
  "py_input w =
     (case stdin w of
        [] \<Rightarrow> Raised EOFError w
      | (d, l) # rest \<Rightarrow> Return l (advance d (w\<lparr>stdin := rest\<rparr>)))"

definition bind :: "'a outcome \<Rightarrow> ('a \<Rightarrow> world \<Rightarrow> 'b outcome) \<Rightarrow> 'b outcome" where
  "bind m f = (case m of Raised e w \<Rightarrow> Raised e w | Return x w \<Rightarrow> f x w)"

definition pause :: "world \<Rightarrow> unit outcome" where
  "pause w = bind (py_input w) (\<lambda>l w'. Return () w')"

definition log_event :: "event \<Rightarrow> world \<Rightarrow> world" where
  "log_event msg w = w\<lparr>event_log := event_log w @ [msg]\<rparr>"

subsection \<open>Files\<close>

text \<open>
  \<^verbatim>\<open>open(path, "wb")\<close> creates the file or truncates it to length zero; \<^verbatim>\<open>f.write\<close> then
  appends. A write is therefore two steps on the file system, and an interruption between
  them is the file system after a prefix of the steps.
\<close>

datatype fs_step = Truncate string | Append string bytes

fun apply_step :: "(string \<rightharpoonup> bytes) \<Rightarrow> fs_step \<Rightarrow> (string \<rightharpoonup> bytes)" where
  "apply_step f (Truncate p) = f(p \<mapsto> [])"
| "apply_step f (Append p b) = f(p \<mapsto> (case f p of None \<Rightarrow> b | Some old \<Rightarrow> old @ b))"

definition write_steps :: "string \<Rightarrow> bytes \<Rightarrow> fs_step list" where
  "write_steps p b = [Truncate p, Append p b]"

definition write_bytes :: "string \<Rightarrow> bytes \<Rightarrow> world \<Rightarrow> world" where
  "write_bytes p b w = w\<lparr>fs := foldl apply_step (fs w) (write_steps p b)\<rparr>"

definition path_exists :: "string \<Rightarrow> world \<Rightarrow> bool" where
  "path_exists p w = (fs w p \<noteq> None)"

definition read_bytes :: "string \<Rightarrow> world \<Rightarrow> bytes outcome" where
  "read_bytes p w = (case fs w p of None \<Rightarrow> Raised FileNotFoundError w | Some b \<Rightarrow> Return b w)"

definition os_urandom :: "nat \<Rightarrow> world \<Rightarrow> bytes \<times> world" where
  "os_urandom n w =
     (map (\<lambda>i. entropy w (entropy_pos w + i) mod 256) [0..<n],
      w\<lparr>entropy_pos := entropy_pos w + n\<rparr>)"

section \<open>Configuration\<close>

text \<open>Python's \<^verbatim>\<open>int(x)\<close>: truncation towards zero on a float, parsing on a string.\<close>

fun py_int :: "'k libs \<Rightarrow> pyval \<Rightarrow> exn + int" where
  "py_int L PNone = Inl TypeError"
| "py_int L (PBool b) = Inr (if b then 1 else 0)"
| "py_int L (PInt i) = Inr i"
| "py_int L (PFloat m e) =
     Inr (if 0 \<le> e then m * 2 ^ nat e
          else if m < 0 then - ((- m) div 2 ^ nat (- e))
          else m div 2 ^ nat (- e))"
| "py_int L (PInf neg) = Inl OverflowError"
| "py_int L PNaN = Inl ValueError"
| "py_int L (PStr s) = (case int_of_str L s of None \<Rightarrow> Inl ValueError | Some i \<Rightarrow> Inr i)"
| "py_int L (PList xs) = Inl TypeError"
| "py_int L (PDict kvs) = Inl TypeError"

definition dict_get :: "(string \<times> pyval) list \<Rightarrow> string \<Rightarrow> pyval \<Rightarrow> pyval" where
  "dict_get d k dflt = (case map_of d k of None \<Rightarrow> dflt | Some v \<Rightarrow> v)"

definition vault_autolock_minutes :: "'k libs \<Rightarrow> world \<Rightarrow> int" where
  "vault_autolock_minutes L w =
     (case py_int L (dict_get (CONFIG w) ''vault_autolock_minutes'' (PInt 3)) of
        Inl e \<Rightarrow> 3
      | Inr n \<Rightarrow> max 1 n)"

section \<open>Salt, key and vault file\<close>

definition vault_get_or_create_salt :: "string \<Rightarrow> world \<Rightarrow> bytes outcome" where
  "vault_get_or_create_salt path w =
     (if path_exists path w then read_bytes path w
      else let r = os_urandom 16 w
           in Return (fst r) (write_bytes path (fst r) (snd r)))"

definition derive_key_from_password :: "'k libs \<Rightarrow> string \<Rightarrow> bytes \<Rightarrow> 'k" where
  "derive_key_from_password L password salt = kdf L password salt"

definition empty_vault :: pyval where
  "empty_vault = PDict [(''items'', PList [])]"

fun is_vault_dict :: "pyval \<Rightarrow> bool" where
  "is_vault_dict (PDict kvs) = (map_of kvs ''items'' \<noteq> None)"
| "is_vault_dict v = False"

definition vault_load :: "'k libs \<Rightarrow> 'k \<Rightarrow> string \<Rightarrow> world \<Rightarrow> pyval outcome" where
  "vault_load L fernet vault_path w =
     (if \<not> path_exists vault_path w then Return empty_vault w
      else case read_bytes vault_path w of
        Raised e w1 \<Rightarrow> Raised e w1
      | Return token w1 \<Rightarrow>
          (case fernet_decrypt L fernet token of
             None \<Rightarrow> Raised InvalidToken w1
           | Some raw \<Rightarrow>
               (case json_loads L raw of
                  None \<Rightarrow> Raised ValueError w1
                | Some data \<Rightarrow>
                    if \<not> is_vault_dict data then Return empty_vault w1
                    else Return data w1)))"

text \<open>
  \<^verbatim>\<open>vault_save\<close> serialises and encrypts first and only then opens the file for writing.
  \<open>vault_save_steps\<close> are the file-system steps it performs, with the IV taken from the
  random source and the timestamp from the clock.
\<close>

definition vault_token :: "'k libs \<Rightarrow> 'k \<Rightarrow> pyval \<Rightarrow> world \<Rightarrow> bytes" where
  "vault_token L fernet data w =
     fernet_encrypt L fernet (fst (os_urandom 16 w)) (clock w) (json_dumps L data)"


definition vault_save :: "'k libs \<Rightarrow> 'k \<Rightarrow> pyval \<Rightarrow> string \<Rightarrow> world \<Rightarrow> world" where
  "vault_save L fernet data vault_path w =
     (let token = vault_token L fernet data w
      in write_bytes vault_path token (snd (os_urandom 16 w)))"


text \<open>The world a call leaves behind, whether it returns or raises.\<close>

fun final_world :: "'a outcome \<Rightarrow> world" where
  "final_world (Return x w) = w"
| "final_world (Raised e w) = w"

text \<open>A call that, however it ends, leaves every file as it found it.\<close>

definition keeps_files :: "world \<Rightarrow> 'a outcome \<Rightarrow> bool" where
  "keeps_files w m = (fs (final_world m) = fs w)"

section \<open>Strings and tags\<close>

text \<open>
  Characters are code points below 256; \<open>is_space\<close>, \<open>lower_char\<close> and \<open>is_digit\<close> are
  \<^verbatim>\<open>str.isspace\<close>, \<^verbatim>\<open>str.lower\<close> and \<^verbatim>\<open>str.isdigit\<close> on that range.
\<close>

definition is_space :: "char \<Rightarrow> bool" where
  "is_space c =
     (let n = (of_char c :: nat)
      in (9 \<le> n \<and> n \<le> 13) \<or> (28 \<le> n \<and> n \<le> 32) \<or> n = 133 \<or> n = 160)"

definition lower_char :: "char \<Rightarrow> char" where
  "lower_char c =
     (let n = (of_char c :: nat)
      in if (65 \<le> n \<and> n \<le> 90) \<or> (192 \<le> n \<and> n \<le> 222 \<and> n \<noteq> 215)
         then char_of (n + 32) else c)"

definition is_digit :: "char \<Rightarrow> bool" where
  "is_digit c =
     (let n = (of_char c :: nat)
      in (48 \<le> n \<and> n \<le> 57) \<or> n = 178 \<or> n = 179 \<or> n = 185)"

definition lstrip :: "string \<Rightarrow> string" where
  "lstrip s = dropWhile is_space s"

definition rstrip :: "string \<Rightarrow> string" where
  "rstrip s = rev (dropWhile is_space (rev s))"

definition strip :: "string \<Rightarrow> string" where
  "strip s = rstrip (lstrip s)"

definition lower :: "string \<Rightarrow> string" where
  "lower s = map lower_char s"

definition isdigit :: "string \<Rightarrow> bool" where
  "isdigit s = (s \<noteq> [] \<and> list_all is_digit s)"

fun split_ws :: "string \<Rightarrow> string \<Rightarrow> string list" where
  "split_ws [] cur = (if cur = [] then [] else [cur])"
| "split_ws (c # cs) cur =
     (if is_space c then (if cur = [] then split_ws cs [] else cur # split_ws cs [])
      else split_ws cs (cur @ [c]))"

definition py_split :: "string \<Rightarrow> string list" where
  "py_split s = split_ws s []"

definition replace_commas :: "string \<Rightarrow> string" where
  "replace_commas s = map (\<lambda>c. if c = CHR '','' then CHR '' '' else c) s"

definition parse_tags :: "string \<Rightarrow> string list" where
  "parse_tags s =
     foldl (\<lambda>tags t. let t' = lower (strip t)
                      in if t' \<noteq> [] \<and> t' \<notin> set tags then tags @ [t'] else tags)
           [] (py_split (replace_commas s))"

section \<open>Clipboard\<close>

definition clip_copy :: "string \<Rightarrow> world \<Rightarrow> world" where
  "clip_copy text w =
     (if \<not> CLIPBOARD_OK w then w
      else if copy_raises w then w
      else w\<lparr>clipboard := text\<rparr>)"

text \<open>
  \<^verbatim>\<open>time.sleep(seconds)\<close> is the clock moving on by \<open>seconds\<close> inside the call: the writes
  other programs make to the clipboard in that interval happen before \<^verbatim>\<open>pyperclip.paste()\<close>.
\<close>

definition clip_copy_autoclear :: "string \<Rightarrow> int \<Rightarrow> world \<Rightarrow> world" where
  "clip_copy_autoclear text seconds w =
     (if \<not> CLIPBOARD_OK w then w
      else if copy_raises w then w
      else let w1 = w\<lparr>clipboard := text\<rparr>
           in if seconds \<noteq> 0 \<and> seconds > 0 then
                (let w2 = advance (real_of_int seconds) w1;
                     cur = (if paste_raises w2 then None else Some (clipboard w2))
                 in if cur = Some text then w2\<lparr>clipboard := []\<rparr> else w2)
              else w1)"

section \<open>Unlocking\<close>

definition vault_available :: "world \<Rightarrow> bool" where
  "vault_available w = Fernet_imported w"

definition vault_unlock :: "'k libs \<Rightarrow> string \<Rightarrow> string \<Rightarrow> world \<Rightarrow> 'k option outcome" where
  "vault_unlock L vault_path salt_path w =
     (if \<not> vault_available w then bind (pause w) (\<lambda>u w1. Return None w1)
      else
        bind (vault_get_or_create_salt salt_path w) (\<lambda>salt w1.
        bind (py_input w1) (\<lambda>pw w2.
          if pw = [] then Return None w2
          else
            let key = derive_key_from_password L pw salt
            in case vault_load L key vault_path w2 of
                 Return data w3 \<Rightarrow> Return (Some key) w3
               | Raised e w3 \<Rightarrow> bind (pause w3) (\<lambda>u w4. Return None w4))))"

definition vault_autolock_check :: "'k libs \<Rightarrow> real \<Rightarrow> world \<Rightarrow> bool" where
  "vault_autolock_check L last_activity_ts w =
     (clock w - last_activity_ts \<ge> real_of_int (vault_autolock_minutes L w * 60))"

section \<open>Items\<close>

fun str_or_missing :: "(string \<times> pyval) list \<Rightarrow> string \<Rightarrow> bool" where
  "str_or_missing kvs k =
     (case map_of kvs k of None \<Rightarrow> True | Some (PStr s) \<Rightarrow> True | Some v \<Rightarrow> False)"

fun is_str :: "pyval \<Rightarrow> bool" where
  "is_str (PStr s) = True"
| "is_str v = False"

fun well_formed_item :: "pyval \<Rightarrow> bool" where
  "well_formed_item (PDict kvs) =
     (list_all (str_or_missing kvs)
        [''type'', ''title'', ''value'', ''username'', ''password'', ''url'', ''note'',
         ''created_at'', ''updated_at'']
      \<and> (case map_of kvs ''tags'' of
            None \<Rightarrow> True
          | Some (PList ts) \<Rightarrow> list_all is_str ts
          | Some v \<Rightarrow> False))"
| "well_formed_item v = False"

definition vault_view_items :: "pyval list \<Rightarrow> world \<Rightarrow> unit outcome" where
  "vault_view_items items w =
     (if list_all well_formed_item items then Return () w else Raised Unsupported w)"

definition vault_pick_item :: "'k libs \<Rightarrow> pyval list \<Rightarrow> world \<Rightarrow> nat option outcome" where
  "vault_pick_item L items w =
     (if items = [] then Return None w
      else if \<not> list_all well_formed_item items then Raised Unsupported w
      else bind (py_input w) (\<lambda>l w1.
        let s = strip l
        in if \<not> isdigit s then Return None w1
           else case int_of_str L s of
                  None \<Rightarrow> Raised ValueError w1
                | Some n \<Rightarrow>
                    if 1 \<le> n \<and> n \<le> int (length items) then Return (Some (nat (n - 1))) w1
                    else Return None w1))"

text \<open>\<^verbatim>\<open>data["items"].append(item)\<close>, with the dict updated in place.\<close>

fun items_append :: "pyval \<Rightarrow> pyval \<Rightarrow> exn + pyval" where
  "items_append (PDict kvs) item =
     (case map_of kvs ''items'' of
        None \<Rightarrow> Inl KeyError
      | Some (PList xs) \<Rightarrow> Inr (PDict (AList.update ''items'' (PList (xs @ [item])) kvs))
      | Some v \<Rightarrow> Inl AttributeError)"
| "items_append v item = Inl TypeError"

definition note_item :: "'k libs \<Rightarrow> string \<Rightarrow> string \<Rightarrow> string list \<Rightarrow> world \<Rightarrow> pyval" where
  "note_item L title val tags w =
     PDict [(''type'', PStr ''note''), (''title'', PStr title), (''value'', PStr val),
            (''tags'', PList (map PStr tags)), (''created_at'', PStr (strftime L (clock w)))]"

definition login_item ::
  "'k libs \<Rightarrow> string \<Rightarrow> string \<Rightarrow> string \<Rightarrow> string \<Rightarrow> string \<Rightarrow> string list \<Rightarrow> world \<Rightarrow> pyval" where
  "login_item L title username password url note tags w =
     PDict [(''type'', PStr ''login''), (''title'', PStr title), (''username'', PStr username),
            (''password'', PStr password), (''url'', PStr url), (''note'', PStr note),
            (''tags'', PList (map PStr tags)), (''created_at'', PStr (strftime L (clock w)))]"

definition vault_add_note :: "'k libs \<Rightarrow> pyval \<Rightarrow> world \<Rightarrow> (pyval \<times> bool) outcome" where
  "vault_add_note L data w =
     bind (py_input w) (\<lambda>l1 w1. let title = strip l1 in
     bind (py_input w1) (\<lambda>l2 w2. let val = rstrip l2 in
     bind (py_input w2) (\<lambda>l3 w3. let tags = parse_tags (strip l3) in
       if title = [] \<or> val = [] then
         bind (pause w3) (\<lambda>u w4. Return (data, False) w4)
       else
         case items_append data (note_item L title val tags w3) of
           Inl e \<Rightarrow> Raised e w3
         | Inr data' \<Rightarrow> Return (data', True) w3)))"

definition vault_add_login :: "'k libs \<Rightarrow> pyval \<Rightarrow> world \<Rightarrow> (pyval \<times> bool) outcome" where
  "vault_add_login L data w =
     bind (py_input w) (\<lambda>l1 w1. let title = strip l1 in
     bind (py_input w1) (\<lambda>l2 w2. let username = strip l2 in
     bind (py_input w2) (\<lambda>l3 w3. let password = strip l3 in
     bind (py_input w3) (\<lambda>l4 w4. let url = strip l4 in
     bind (py_input w4) (\<lambda>l5 w5. let note = strip l5 in
     bind (py_input w5) (\<lambda>l6 w6. let tags = parse_tags (strip l6) in
       if title = [] \<or> username = [] \<or> password = [] then
         bind (pause w6) (\<lambda>u w7. Return (data, False) w7)
       else
         case items_append data (login_item L title username password url note tags w6) of
           Inl e \<Rightarrow> Raised e w6
         | Inr data' \<Rightarrow> Return (data', True) w6))))))"

section \<open>Copying and revealing\<close>

fun py_truthy :: "pyval \<Rightarrow> bool" where
  "py_truthy PNone = False"
| "py_truthy (PBool b) = b"
| "py_truthy (PInt i) = (i \<noteq> 0)"
| "py_truthy (PFloat m e) = (m \<noteq> 0)"
| "py_truthy (PInf neg) = True"
| "py_truthy PNaN = True"
| "py_truthy (PStr s) = (s \<noteq> [])"
| "py_truthy (PList xs) = (xs \<noteq> [])"
| "py_truthy (PDict kvs) = (kvs \<noteq> [])"

text \<open>\<^verbatim>\<open>it.get(k, dflt)\<close> on an item whose fields are strings.\<close>

fun item_field :: "pyval \<Rightarrow> string \<Rightarrow> string \<Rightarrow> string" where
  "item_field (PDict kvs) k dflt = (case map_of kvs k of Some (PStr s) \<Rightarrow> s | _ \<Rightarrow> dflt)"
| "item_field v k dflt = dflt"

definition clear_seconds :: "'k libs \<Rightarrow> world \<Rightarrow> exn + int" where
  "clear_seconds L w =
     (let v = dict_get (CONFIG w) ''vault_clipboard_clear_seconds'' (PInt 20)
      in py_int L (if py_truthy v then v else PInt 20))"

definition copy_choice :: "pyval \<Rightarrow> int \<Rightarrow> world \<Rightarrow> unit outcome" where
  "copy_choice it clear_s w =
     (if item_field it ''type'' ''note'' = ''login'' then
        bind (py_input w) (\<lambda>l w2.
          let c = strip l
          in if c = ''1'' then pause (clip_copy (item_field it ''username'' []) w2)
             else if c = ''2'' then
               pause (log_event (PasswordCopied clear_s)
                        (clip_copy_autoclear (item_field it ''password'' []) clear_s w2))
             else if c = ''3'' then pause (log_event PasswordRevealed w2)
             else if c = ''4'' then pause (clip_copy (item_field it ''url'' []) w2)
             else if c = ''5'' then pause (clip_copy (item_field it ''note'' []) w2)
             else Return () w2)
      else pause (clip_copy (item_field it ''value'' []) w))"

definition vault_copy_menu :: "'k libs \<Rightarrow> pyval list \<Rightarrow> world \<Rightarrow> unit outcome" where
  "vault_copy_menu L items w =
     (if items = [] then pause w
      else bind (vault_pick_item L items w) (\<lambda>idx w1.
        case idx of
          None \<Rightarrow> pause w1
        | Some i \<Rightarrow>
            (if \<not> i < length items then Raised IndexError w1
             else (case clear_seconds L w1 of
                     Inl e \<Rightarrow> Raised e w1
                   | Inr clear_s \<Rightarrow> copy_choice (items ! i) clear_s w1))))"

section \<open>The vault menu\<close>

text \<open>
  The locals of \<^verbatim>\<open>vault_menu\<close> that live across iterations are the \<^verbatim>\<open>Fernet\<close> object and
  \<^verbatim>\<open>last_activity\<close>. One iteration of its \<^verbatim>\<open>while True\<close> loop either goes round again
  (\<open>Some\<close> of the locals) or returns (\<open>None\<close>: the locals are gone and the vault is locked).
\<close>

record 'k session =
  fernet :: 'k
  last_activity :: real

fun data_items :: "pyval \<Rightarrow> pyval list option" where
  "data_items (PDict kvs) =
     (case dict_get kvs ''items'' (PList []) of PList xs \<Rightarrow> Some xs | v \<Rightarrow> None)"
| "data_items v = None"

fun set_items :: "pyval \<Rightarrow> pyval list \<Rightarrow> pyval" where
  "set_items (PDict kvs) xs = PDict (AList.update ''items'' (PList xs) kvs)"
| "set_items v xs = v"

text \<open>
  Branches 3 and 4 of the menu: \<^verbatim>\<open>if vault_add_...(data): vault_save(f, data, VAULT_FILE);
  log_event(...)\<close>, followed by \<^verbatim>\<open>pause()\<close>.
\<close>

definition save_if_added :: "'k libs \<Rightarrow> 'k \<Rightarrow> event \<Rightarrow> (pyval \<times> bool) outcome \<Rightarrow> unit outcome" where
  "save_if_added L f ev m =
     bind m (\<lambda>r w.
       if snd r then pause (log_event ev (vault_save L f (fst r) VAULT_FILE w))
       else pause w)"

definition again :: "'k session \<Rightarrow> unit outcome \<Rightarrow> 'k session option outcome" where
  "again s m = bind m (\<lambda>u w. Return (Some s) w)"

definition vault_menu_iter :: "'k libs \<Rightarrow> 'k session \<Rightarrow> world \<Rightarrow> 'k session option outcome" where
  "vault_menu_iter L s w =
     (if vault_autolock_check L (last_activity s) w then
        bind (pause (log_event AutoLocked w)) (\<lambda>u w1. Return None w1)
      else
        bind (vault_load L (fernet s) VAULT_FILE w) (\<lambda>data w1.
        case data_items data of
          None \<Rightarrow> Raised Unsupported w1
        | Some items \<Rightarrow>
        bind (py_input w1) (\<lambda>l w2.
          let choice = strip l; s' = s\<lparr>last_activity := clock w2\<rparr>
          in if choice = ''1'' then
               again s' (bind (vault_view_items items w2) (\<lambda>u w3. pause w3))
             else if choice = ''2'' then
               again s' (bind (py_input w2) (\<lambda>t w3.
                 if lower (strip t) \<noteq> [] then bind (vault_view_items items w3) (\<lambda>u w4. pause w4)
                 else pause w3))
             else if choice = ''3'' then
               again s' (save_if_added L (fernet s) AddedNote (vault_add_note L data w2))
             else if choice = ''4'' then
               again s' (save_if_added L (fernet s) AddedLogin (vault_add_login L data w2))
             else if choice = ''5'' then
               again s'
                 (if items = [] then pause w2
                  else bind (vault_pick_item L items w2) (\<lambda>idx w3.
                    case idx of
                      None \<Rightarrow> pause w3
                    | Some i \<Rightarrow>
                        if \<not> i < length items then Raised IndexError w3
                        else
                          let removed = items ! i;
                              data' = set_items data (take i items @ drop (Suc i) items)
                          in pause (log_event (Deleted (item_field removed ''title'' ''(item)''))
                                      (vault_save L (fernet s) data' VAULT_FILE w3))))
             else if choice = ''6'' then
               again s' (bind (py_input w2) (\<lambda>q w3.
                 if lower (strip q) \<noteq> [] then bind (vault_view_items items w3) (\<lambda>u w4. pause w4)
                 else pause w3))
             else if choice = ''7'' then again s' (vault_copy_menu L items w2)
             else if choice = ''8'' then
               bind (pause (log_event LockedManually w2)) (\<lambda>u w3. Return None w3)
             else if choice = ''0'' then Return None (log_event VaultBack w2)
             else Return (Some s') (advance (3 / 5) w2))))"

subsection \<open>The loop\<close>

text \<open>
  Every iteration that goes round again has read at least one line, so on any finite
  sequence of lines the loop ends: by a return, or by \<^verbatim>\<open>EOFError\<close> when the lines run out.
  \<open>consumes n w m\<close>: if \<open>m\<close>, started in \<open>w\<close>, returns, at least \<open>n\<close> lines are gone.
\<close>

definition consumes :: "nat \<Rightarrow> world \<Rightarrow> 'a outcome \<Rightarrow> bool" where
  "consumes n w m =
     (case m of Return x w' \<Rightarrow> length (stdin w') + n \<le> length (stdin w) | Raised e w' \<Rightarrow> True)"

lemma stdin_advance [simp]: "stdin (advance d w) = stdin w"
  by (simp add: advance_def Let_def)

lemma stdin_log_event [simp]: "stdin (log_event e w) = stdin w"
  by (simp add: log_event_def)

lemma stdin_write_bytes [simp]: "stdin (write_bytes p b w) = stdin w"
  by (simp add: write_bytes_def)

lemma stdin_vault_save [simp]: "stdin (vault_save L k d p w) = stdin w"
  by (simp add: vault_save_def os_urandom_def Let_def)

lemma stdin_clip_copy [simp]: "stdin (clip_copy t w) = stdin w"
  by (simp add: clip_copy_def)

lemma stdin_clip_copy_autoclear [simp]: "stdin (clip_copy_autoclear t n w) = stdin w"
  by (simp add: clip_copy_autoclear_def Let_def)

lemma consumes_Return: "consumes n w (Return x w') = (length (stdin w') + n \<le> length (stdin w))"
  by (simp add: consumes_def)

lemma consumes_Raised [simp]: "consumes n w (Raised e w')"
  by (simp add: consumes_def)

lemma consumes_bind:
  assumes "consumes a w m" and "\<And>x w'. m = Return x w' \<Longrightarrow> consumes b w' (f x w')"
  shows "consumes (a + b) w (bind m f)"
  using assms by (cases m; cases "f (case m of Return x w' \<Rightarrow> x) (case m of Return x w' \<Rightarrow> w')")
                 (auto simp: bind_def consumes_def)

lemma consumes_bind0:
  assumes "consumes 0 w m" and "\<And>x w'. m = Return x w' \<Longrightarrow> consumes b w' (f x w')"
  shows "consumes b w (bind m f)"
  using consumes_bind [OF assms] by simp

lemma consumes_mono: "consumes n w m \<Longrightarrow> k \<le> n \<Longrightarrow> consumes k w m"
  by (auto simp: consumes_def split: outcome.splits)

lemma consumes_input: "consumes 1 w (py_input w)"
  by (auto simp: py_input_def consumes_def split: list.splits)

lemma consumes_input_bind:
  assumes "\<And>x w'. consumes 0 w' (f x w')"
  shows "consumes 1 w (bind (py_input w) f)"
  using consumes_bind [OF consumes_input, where b = 0 and f = f] assms by simp

lemma consumes_pause: "consumes 1 w (pause w)"
  using consumes_input [of w]
  by (auto simp: pause_def bind_def consumes_def split: outcome.splits)

lemma consumes0_pause_after: "stdin w' = stdin w \<Longrightarrow> consumes 0 w (pause w')"
  using consumes_pause [of w'] by (auto simp: consumes_def split: outcome.splits)

lemma consumes0_input: "consumes 0 w (py_input w)"
  by (rule consumes_mono [OF consumes_input]) simp

lemma consumes0_view: "consumes 0 w (vault_view_items items w)"
  by (simp add: vault_view_items_def consumes_def)

lemma consumes0_load: "consumes 0 w (vault_load L k p w)"
  by (simp add: vault_load_def consumes_def read_bytes_def split: option.splits)

lemma consumes0_pick: "consumes 0 w (vault_pick_item L items w)"
  unfolding vault_pick_item_def
  by (auto simp: consumes_Return Let_def split: option.splits
           intro!: consumes_bind0 consumes0_input)

lemma consumes0_add_note: "consumes 0 w (vault_add_note L data w)"
  unfolding vault_add_note_def
  by (auto simp: consumes_Return Let_def split: sum.splits
           intro!: consumes_bind0 consumes0_input consumes0_pause_after)

lemma consumes0_add_login: "consumes 0 w (vault_add_login L data w)"
  unfolding vault_add_login_def
  by (auto simp: consumes_Return Let_def split: sum.splits
           intro!: consumes_bind0 consumes0_input consumes0_pause_after)

lemma consumes0_save_if_added: "consumes 0 w m \<Longrightarrow> consumes 0 w (save_if_added L f ev m)"
  unfolding save_if_added_def
  by (rule consumes_bind0) (auto intro!: consumes0_pause_after)

lemma consumes0_copy_choice: "consumes 0 w (copy_choice it n w)"
  unfolding copy_choice_def
  by (auto simp: consumes_Return Let_def
           intro!: consumes_bind0 consumes0_input consumes0_pause_after)

lemma consumes0_copy_menu: "consumes 0 w (vault_copy_menu L items w)"
  unfolding vault_copy_menu_def
  by (auto simp: consumes_Return Let_def split: option.splits sum.splits
           intro!: consumes_bind0 consumes0_pick consumes0_pause_after consumes0_copy_choice)

lemma consumes0_again: "consumes 0 w m \<Longrightarrow> consumes 0 w (again s m)"
  unfolding again_def by (rule consumes_bind0) (auto simp: consumes_Return)

lemma consumes_lock: "consumes 1 w (bind (pause (log_event e w)) (\<lambda>u w1. Return None w1))"
  using consumes_pause [of "log_event e w"]
  by (auto simp: bind_def consumes_def split: outcome.splits)

lemma vault_menu_iter_consumes1: "consumes 1 w (vault_menu_iter L s w)"
  unfolding vault_menu_iter_def
  apply (split if_split; intro conjI impI)
   apply (rule consumes_lock)
  apply (rule consumes_bind0 [OF consumes0_load])
  apply (split option.split; intro conjI impI allI)
   apply simp
  apply (rule consumes_input_bind)
  apply (auto simp: consumes_Return Let_def split: option.splits
           intro!: consumes0_again consumes_bind0 consumes0_input consumes0_pause_after
                   consumes0_view consumes0_add_note consumes0_add_login consumes0_pick
                   consumes0_copy_menu consumes0_save_if_added
                   consumes_lock [THEN consumes_mono])
  done

lemma vault_menu_iter_consumes:
  "vault_menu_iter L s w = Return (Some s') w' \<Longrightarrow> length (stdin w') < length (stdin w)"
  using vault_menu_iter_consumes1 [of w L s] by (simp add: consumes_def)

function vault_menu_loop :: "'k libs \<Rightarrow> 'k session \<Rightarrow> world \<Rightarrow> unit outcome" where
  "vault_menu_loop L s w =
     (case vault_menu_iter L s w of
        Raised e w' \<Rightarrow> Raised e w'
      | Return None w' \<Rightarrow> Return () w'
      | Return (Some s') w' \<Rightarrow> vault_menu_loop L s' w')"
  by pat_completeness auto
termination
  by (relation "measure (\<lambda>(L, s, w). length (stdin w))") (auto dest: vault_menu_iter_consumes)

declare vault_menu_loop.simps [simp del]

definition vault_menu :: "'k libs \<Rightarrow> world \<Rightarrow> unit outcome" where
  "vault_menu L w =
     bind (vault_unlock L VAULT_FILE VAULT_SALT_FILE w) (\<lambda>f w1.
       case f of
         None \<Rightarrow> Return () w1
       | Some k \<Rightarrow> vault_menu_loop L \<lparr>fernet = k, last_activity = clock w1\<rparr> w1)"

section \<open>A reference instance of the libraries\<close>

text \<open>
  The theorems below hold for every \<open>libs\<close> that meets the stated library properties.
  \<open>ref_libs\<close> is one such instance, used to run the model on concrete inputs: a symbolic
  cipher whose token names the key it was made with, a key derivation that keeps password
  and salt apart, and a length-prefixed serialisation of \<open>pyval\<close> with its parser.
\<close>

definition ref_kdf :: "string \<Rightarrow> bytes \<Rightarrow> bytes" where
  "ref_kdf password salt = length password # map of_char password @ salt"

definition ref_encrypt :: "bytes \<Rightarrow> bytes \<Rightarrow> real \<Rightarrow> bytes \<Rightarrow> bytes" where
  "ref_encrypt key iv now raw = length key # key @ raw"

definition ref_decrypt :: "bytes \<Rightarrow> bytes \<Rightarrow> bytes option" where
  "ref_decrypt key token =
     (case token of
        [] \<Rightarrow> None
      | n # rest \<Rightarrow> if n = length key \<and> take n rest = key then Some (drop n rest) else None)"

definition enc_str :: "string \<Rightarrow> bytes" where
  "enc_str s = length s # map of_char s"

definition enc_int :: "int \<Rightarrow> bytes" where
  "enc_int i = [if i < 0 then 1 else 0, nat \<bar>i\<bar>]"

fun ref_dumps :: "pyval \<Rightarrow> bytes" where
  "ref_dumps PNone = [0]"
| "ref_dumps (PBool b) = [1, if b then 1 else 0]"
| "ref_dumps (PInt i) = 2 # enc_int i"
| "ref_dumps (PFloat m e) = 3 # enc_int m @ enc_int e"
| "ref_dumps (PInf neg) = [4, if neg then 1 else 0]"
| "ref_dumps PNaN = [5]"
| "ref_dumps (PStr s) = 6 # enc_str s"
| "ref_dumps (PList xs) = 7 # length xs # concat (map ref_dumps xs)"
| "ref_dumps (PDict kvs) =
     8 # length kvs # concat (map (\<lambda>kv. enc_str (fst kv) @ ref_dumps (snd kv)) kvs)"

definition dec_str :: "bytes \<Rightarrow> (string \<times> bytes) option" where
  "dec_str bs =
     (case bs of
        [] \<Rightarrow> None
      | n # r \<Rightarrow> if n \<le> length r then Some (map char_of (take n r), drop n r) else None)"

definition dec_int :: "bytes \<Rightarrow> (int \<times> bytes) option" where
  "dec_int bs =
     (case bs of
        sg # a # r \<Rightarrow> Some (if sg = 1 then - int a else int a, r)
      | _ \<Rightarrow> None)"

fun dec :: "nat \<Rightarrow> bytes \<Rightarrow> (pyval \<times> bytes) option"
  and dec_list :: "nat \<Rightarrow> nat \<Rightarrow> bytes \<Rightarrow> (pyval list \<times> bytes) option"
  and dec_dict :: "nat \<Rightarrow> nat \<Rightarrow> bytes \<Rightarrow> ((string \<times> pyval) list \<times> bytes) option" where
  "dec 0 bs = None"
| "dec (Suc fuel) [] = None"
| "dec (Suc fuel) (t # bs) =
     (if t = 0 then Some (PNone, bs)
      else if t = 1 then (case bs of b # r \<Rightarrow> Some (PBool (b = 1), r) | [] \<Rightarrow> None)
      else if t = 2 then (case dec_int bs of Some (i, r) \<Rightarrow> Some (PInt i, r) | None \<Rightarrow> None)
      else if t = 3 then
        (case dec_int bs of
           Some (m, r) \<Rightarrow> (case dec_int r of Some (e, r') \<Rightarrow> Some (PFloat m e, r') | None \<Rightarrow> None)
         | None \<Rightarrow> None)
      else if t = 4 then (case bs of b # r \<Rightarrow> Some (PInf (b = 1), r) | [] \<Rightarrow> None)
      else if t = 5 then Some (PNaN, bs)
      else if t = 6 then (case dec_str bs of Some (s, r) \<Rightarrow> Some (PStr s, r) | None \<Rightarrow> None)
      else if t = 7 then
        (case bs of
           n # r \<Rightarrow> (case dec_list fuel n r of Some (xs, r') \<Rightarrow> Some (PList xs, r') | None \<Rightarrow> None)
         | [] \<Rightarrow> None)
      else if t = 8 then
        (case bs of
           n # r \<Rightarrow> (case dec_dict fuel n r of Some (kvs, r') \<Rightarrow> Some (PDict kvs, r') | None \<Rightarrow> None)
         | [] \<Rightarrow> None)
      else None)"
| "dec_list fuel 0 bs = Some ([], bs)"
| "dec_list fuel (Suc n) bs =
     (case dec fuel bs of
        None \<Rightarrow> None
      | Some (x, r) \<Rightarrow>
          (case dec_list fuel n r of None \<Rightarrow> None | Some (xs, r') \<Rightarrow> Some (x # xs, r')))"
| "dec_dict fuel 0 bs = Some ([], bs)"
| "dec_dict fuel (Suc n) bs =
     (case dec_str bs of
        None \<Rightarrow> None
      | Some (k, r) \<Rightarrow>
          (case dec fuel r of
             None \<Rightarrow> None
           | Some (v, r') \<Rightarrow>
               (case dec_dict fuel n r' of
                  None \<Rightarrow> None
                | Some (kvs, r'') \<Rightarrow> Some ((k, v) # kvs, r''))))"

definition ref_loads :: "bytes \<Rightarrow> pyval option" where
  "ref_loads raw = (case dec (Suc (length raw)) raw of Some (v, []) \<Rightarrow> Some v | _ \<Rightarrow> None)"

definition ref_int_of_str :: "string \<Rightarrow> int option" where
  "ref_int_of_str s =
     (let t = strip s
      in if t \<noteq> [] \<and> list_all (\<lambda>c. 48 \<le> (of_char c :: nat) \<and> (of_char c :: nat) \<le> 57) t
         then Some (foldl (\<lambda>a c. 10 * a + (int (of_char c) - 48)) 0 t)
         else None)"

definition ref_libs :: "bytes libs" where
  "ref_libs =
     \<lparr>kdf = ref_kdf, fernet_encrypt = ref_encrypt, fernet_decrypt = ref_decrypt,
      json_dumps = ref_dumps, json_loads = ref_loads, int_of_str = ref_int_of_str,
      strftime = (\<lambda>t. ''2026-01-01 00:00:00'')\<rparr>"

text \<open>A first start: no files, nothing typed, an empty clipboard, the default configuration.\<close>

definition fresh_world :: world where
  "fresh_world =
     \<lparr>fs = Map.empty, clock = 0, stdin = [], clipboard = [], clip_writes = [],
      copy_raises = False, paste_raises = False, entropy = (\<lambda>i. i), entropy_pos = 0,
      event_log = [],
      CONFIG = [(''vault_autolock_minutes'', PInt 3), (''vault_clipboard_clear_seconds'', PInt 20)],
      CLIPBOARD_OK = True, Fernet_imported = True\<rparr>"

text \<open>A stored collection, a salt and a vault saved under the password \<open>hunter2\<close>.\<close>

definition sample_vault :: pyval where
  "sample_vault =
     PDict [(''items'',
       PList [PDict [(''type'', PStr ''note''), (''title'', PStr ''pin''), (''value'', PStr ''1234''),
                     (''tags'', PList [PStr ''bank'']),
                     (''created_at'', PStr ''2026-01-01 00:00:00'')]])]"

definition sample_salt :: bytes where
  "sample_salt = [3, 1, 4, 1, 5, 9, 2, 6, 5, 3, 5, 8, 9, 7, 9, 3]"

definition sample_key :: bytes where
  "sample_key = derive_key_from_password ref_libs ''hunter2'' sample_salt"

definition saved_world :: world where
  "saved_world =
     vault_save ref_libs sample_key sample_vault VAULT_FILE
       (fresh_world\<lparr>fs := [VAULT_SALT_FILE \<mapsto> sample_salt]\<rparr>)"



text \<open>
  A whole session with the auto-lock set to one minute: the user unlocks at time 0, lets
  61 seconds pass at the menu prompt, chooses 4, fills in the login without delay, presses
  ENTER, chooses 8 and presses ENTER.
\<close>

definition idle_world :: world where
  "idle_world =
     saved_world\<lparr>CONFIG := [(''vault_autolock_minutes'', PInt 1)],
       stdin := [(0, ''hunter2''), (61, ''4''), (0, ''Gmail''), (0, ''me''), (0, ''s3cret''),
                 (0, []), (0, []), (0, []), (0, []), (0, ''8''), (0, [])]\<rparr>"

section \<open>What is assumed of the libraries\<close>

text \<open>
  The cryptography and the JSON codec are not code of the vault. The properties the
  vault relies on are stated here as predicates on \<open>libs\<close>: decryption under the key of
  encryption returns the plaintext; decryption under any other key fails (the token is
  authenticated); distinct passwords are derived to distinct keys under the same salt;
  and a document survives serialisation and parsing. The last two are idealisations: a
  key derivation with a fixed-length output cannot separate all passwords, and JSON does
  not give back a NaN that compares equal.
\<close>

definition fernet_round_trip :: "'k libs \<Rightarrow> bool" where
  "fernet_round_trip L =
     (\<forall>k iv t raw. fernet_decrypt L k (fernet_encrypt L k iv t raw) = Some raw)"



definition json_round_trip :: "'k libs \<Rightarrow> pyval \<Rightarrow> bool" where
  "json_round_trip L C = (json_loads L (json_dumps L C) = Some C)"

lemma ref_fernet_round_trip: "fernet_round_trip ref_libs"
  by (simp add: fernet_round_trip_def ref_libs_def ref_encrypt_def ref_decrypt_def)



lemma sample_round_trip: "json_round_trip ref_libs sample_vault"
  unfolding json_round_trip_def by code_simp

section \<open>Properties of files and configuration\<close>

lemma write_bytes_fs: "fs (write_bytes p b w) = (fs w)(p \<mapsto> b)"
  by (simp add: write_bytes_def write_steps_def)

lemma os_urandom_length: "length (fst (os_urandom n w)) = n"
  by (simp add: os_urandom_def)

lemma os_urandom_fs: "fs (snd (os_urandom n w)) = fs w"
  by (simp add: os_urandom_def)

lemma salt_existing:
  "fs w path = Some b \<Longrightarrow> vault_get_or_create_salt path w = Return b w"
  by (simp add: vault_get_or_create_salt_def path_exists_def read_bytes_def)

lemma salt_fresh:
  "fs w path = None \<Longrightarrow>
   vault_get_or_create_salt path w =
     Return (fst (os_urandom 16 w))
       (write_bytes path (fst (os_urandom 16 w)) (snd (os_urandom 16 w)))"
  by (simp add: vault_get_or_create_salt_def path_exists_def Let_def)

text \<open>
  Claim C7. Whatever the key, \<^verbatim>\<open>vault_load\<close> on a path where no file exists returns the
  empty collection \<^verbatim>\<open>{"items": []}\<close>, raises nothing and changes nothing.
\<close>

theorem vault_load_missing_file:
  "fs w vault_path = None \<Longrightarrow>
   vault_load L key vault_path w = Return (PDict [(''items'', PList [])]) w"
  by (simp add: vault_load_def path_exists_def empty_vault_def)

theorem vault_load_missing_file_witness:
  "fs fresh_world VAULT_FILE = None
   \<and> vault_load ref_libs [1, 2, 3] VAULT_FILE fresh_world
       = Return (PDict [(''items'', PList [])]) fresh_world"
  using vault_load_missing_file [of fresh_world VAULT_FILE ref_libs "[1, 2, 3]"]
  by (simp add: fresh_world_def)

text \<open>
  Claim C8. \<^verbatim>\<open>vault_get_or_create_salt\<close>: when the salt file exists, its content is
  returned as it is and nothing changes; when it does not, 16 bytes are drawn from the
  random source, written to the path and returned. In both cases every later call, on any
  world with the files the first call left, returns the same bytes and leaves that world
  as it was: an existing salt is never overwritten.
\<close>

theorem salt_get_or_create:
  "(fs w path = Some b \<longrightarrow> vault_get_or_create_salt path w = Return b w)
   \<and> (fs w path = None \<longrightarrow>
         (\<exists>salt w'. vault_get_or_create_salt path w = Return salt w' \<and> length salt = 16
            \<and> salt = fst (os_urandom 16 w) \<and> fs w' = (fs w)(path \<mapsto> salt)))
   \<and> (\<exists>salt w'. vault_get_or_create_salt path w = Return salt w'
         \<and> (\<forall>u. fs u = fs w' \<longrightarrow> vault_get_or_create_salt path u = Return salt u))"
proof (intro conjI impI)
  assume "fs w path = Some b"
  then show "vault_get_or_create_salt path w = Return b w" by (rule salt_existing)
next
  assume n: "fs w path = None"
  show "\<exists>salt w'. vault_get_or_create_salt path w = Return salt w' \<and> length salt = 16
           \<and> salt = fst (os_urandom 16 w) \<and> fs w' = (fs w)(path \<mapsto> salt)"
    using salt_fresh [OF n] by (simp add: os_urandom_length write_bytes_fs os_urandom_fs)
next
  show "\<exists>salt w'. vault_get_or_create_salt path w = Return salt w'
        \<and> (\<forall>u. fs u = fs w' \<longrightarrow> vault_get_or_create_salt path u = Return salt u)"
  proof (cases "fs w path")
    case None
    let ?s = "fst (os_urandom 16 w)"
    let ?w = "write_bytes path ?s (snd (os_urandom 16 w))"
    have "fs ?w path = Some ?s" by (simp add: write_bytes_fs)
    then have "\<forall>u. fs u = fs ?w \<longrightarrow> vault_get_or_create_salt path u = Return ?s u"
      by (simp add: salt_existing)
    with salt_fresh [OF None] show ?thesis by blast
  next
    case (Some b)
    then have "\<forall>u. fs u = fs w \<longrightarrow> vault_get_or_create_salt path u = Return b u"
      by (simp add: salt_existing)
    with salt_existing [OF Some] show ?thesis by blast
  qed
qed

theorem salt_get_or_create_witness:
  "fs fresh_world VAULT_SALT_FILE = None
   \<and> fs (fresh_world\<lparr>fs := [VAULT_SALT_FILE \<mapsto> [7, 7]]\<rparr>) VAULT_SALT_FILE = Some [7, 7]
   \<and> vault_get_or_create_salt VAULT_SALT_FILE (fresh_world\<lparr>fs := [VAULT_SALT_FILE \<mapsto> [7, 7]]\<rparr>)
       = Return [7, 7] (fresh_world\<lparr>fs := [VAULT_SALT_FILE \<mapsto> [7, 7]]\<rparr>)
   \<and> (\<exists>salt w'. vault_get_or_create_salt VAULT_SALT_FILE fresh_world = Return salt w'
         \<and> length salt = 16 \<and> fs w' VAULT_SALT_FILE = Some salt
         \<and> vault_get_or_create_salt VAULT_SALT_FILE w' = Return salt w')"
proof -
  have a: "fs fresh_world VAULT_SALT_FILE = None"
    by (simp add: fresh_world_def)
  have b: "fs (fresh_world\<lparr>fs := [VAULT_SALT_FILE \<mapsto> [7, 7]]\<rparr>) VAULT_SALT_FILE = Some [7, 7]"
    by simp
  from salt_get_or_create [of "fresh_world\<lparr>fs := [VAULT_SALT_FILE \<mapsto> [7, 7]]\<rparr>" VAULT_SALT_FILE "[7, 7]"] b
  have c: "vault_get_or_create_salt VAULT_SALT_FILE (fresh_world\<lparr>fs := [VAULT_SALT_FILE \<mapsto> [7, 7]]\<rparr>)
             = Return [7, 7] (fresh_world\<lparr>fs := [VAULT_SALT_FILE \<mapsto> [7, 7]]\<rparr>)"
    by blast
  from salt_get_or_create [of fresh_world VAULT_SALT_FILE "[]"] a
  obtain salt w' where d: "vault_get_or_create_salt VAULT_SALT_FILE fresh_world = Return salt w'"
      "length salt = 16" "fs w' = (fs fresh_world)(VAULT_SALT_FILE \<mapsto> salt)"
    by blast
  from d(3) have e: "fs w' VAULT_SALT_FILE = Some salt" by simp
  then have "vault_get_or_create_salt VAULT_SALT_FILE w' = Return salt w'"
    by (rule salt_existing)
  with a b c d e show ?thesis by blast
qed



section \<open>Properties of the vault file\<close>

lemma fs_advance [simp]: "fs (advance d w) = fs w"
  by (simp add: advance_def Let_def)

lemma vault_save_fs:
  "fs (vault_save L k C path w) = (fs w)(path \<mapsto> vault_token L k C w)"
  by (simp add: vault_save_def write_bytes_fs os_urandom_fs Let_def)

lemma vault_load_token:
  "fs w path = Some token \<Longrightarrow>
   vault_load L k path w =
     (case fernet_decrypt L k token of
        None \<Rightarrow> Raised InvalidToken w
      | Some raw \<Rightarrow>
          (case json_loads L raw of
             None \<Rightarrow> Raised ValueError w
           | Some data \<Rightarrow> if is_vault_dict data then Return data w else Return empty_vault w))"
  by (simp add: vault_load_def path_exists_def read_bytes_def split: option.splits)



text \<open>
  Claim C2. For a collection \<open>C\<close> that is a dict with an \<^verbatim>\<open>"items"\<close> key, any password and
  any salt: \<^verbatim>\<open>vault_save\<close> under the derived key followed by \<^verbatim>\<open>vault_load\<close> of the same
  path with the same key returns \<open>C\<close> itself, provided the cipher decrypts what it
  encrypted and the JSON codec gives \<open>C\<close> back.
\<close>

theorem vault_round_trip:
  assumes "is_vault_dict C" and "json_round_trip L C" and "fernet_round_trip L"
  shows "vault_load L (derive_key_from_password L P salt) path
           (vault_save L (derive_key_from_password L P salt) C path w)
         = Return C (vault_save L (derive_key_from_password L P salt) C path w)"
proof -
  let ?k = "derive_key_from_password L P salt"
  let ?w = "vault_save L ?k C path w"
  have f: "fs ?w path = Some (vault_token L ?k C w)"
    by (simp add: vault_save_fs)
  have d: "fernet_decrypt L ?k (vault_token L ?k C w) = Some (json_dumps L C)"
    using assms(3) by (simp add: vault_token_def fernet_round_trip_def)
  show ?thesis
    using assms(1,2) by (simp add: vault_load_token [OF f] d json_round_trip_def)
qed

theorem vault_round_trip_witness:
  "is_vault_dict sample_vault \<and> json_round_trip ref_libs sample_vault
   \<and> fernet_round_trip ref_libs
   \<and> vault_load ref_libs (derive_key_from_password ref_libs ''hunter2'' sample_salt) VAULT_FILE
        (vault_save ref_libs (derive_key_from_password ref_libs ''hunter2'' sample_salt)
           sample_vault VAULT_FILE fresh_world)
      = Return sample_vault
          (vault_save ref_libs (derive_key_from_password ref_libs ''hunter2'' sample_salt)
             sample_vault VAULT_FILE fresh_world)"
proof -
  have a: "is_vault_dict sample_vault" by (simp add: sample_vault_def)
  show ?thesis
    using a sample_round_trip ref_fernet_round_trip
      vault_round_trip [OF a sample_round_trip ref_fernet_round_trip,
                        of "''hunter2''" sample_salt VAULT_FILE fresh_world]
    by simp
qed







section \<open>Properties of the clipboard\<close>

lemma advance_fields [simp]:
  "clock (advance d w) = clock w + d"
  "paste_raises (advance d w) = paste_raises w"
  "copy_raises (advance d w) = copy_raises w"
  "CLIPBOARD_OK (advance d w) = CLIPBOARD_OK w"
  by (simp_all add: advance_def Let_def)







section \<open>Properties of adding a login\<close>

lemma keeps_files_Return [simp]: "keeps_files w (Return x w') = (fs w' = fs w)"
  by (simp add: keeps_files_def)

lemma keeps_files_Raised [simp]: "keeps_files w (Raised e w') = (fs w' = fs w)"
  by (simp add: keeps_files_def)

lemma keeps_files_bind:
  assumes "keeps_files w m" and "\<And>x w'. m = Return x w' \<Longrightarrow> keeps_files w' (f x w')"
  shows "keeps_files w (bind m f)"
  using assms by (cases m) (auto simp: bind_def keeps_files_def)

lemma keeps_files_input: "keeps_files w (py_input w)"
  by (simp add: py_input_def split: list.splits)

lemma keeps_files_pause: "keeps_files w (pause w)"
  unfolding pause_def by (rule keeps_files_bind [OF keeps_files_input]) simp






lemma bind_Return [simp]: "bind (Return x w) f = f x w"
  by (simp add: bind_def)

lemma bind_Raised [simp]: "bind (Raised e w) f = Raised e w"
  by (simp add: bind_def)




lemma fs_log_event [simp]: "fs (log_event e w) = fs w"
  by (simp add: log_event_def)

lemma fs_final_pause [simp]: "fs (final_world (pause w)) = fs w"
  using keeps_files_pause [of w] by (simp add: keeps_files_def)






lemma strip_Nil [simp]: "strip [] = []"
  by (simp add: strip_def lstrip_def rstrip_def)


section \<open>The idle check of the menu\<close>

text \<open>
  Claim C4, on the code. With the threshold at 60 seconds and \<^verbatim>\<open>last_activity = 0\<close>, the
  idle check is true of the moment the choice is entered (time 61); the code never makes
  it there. \<^verbatim>\<open>last_activity\<close> is set to the time the choice arrives, the login is added and
  saved, the session stays unlocked and ends only with the manual lock: the vault then
  holds two items and the log has no auto-lock.
\<close>

theorem autolock_skipped_after_idle_at_menu:
  "vault_autolock_minutes ref_libs idle_world * 60 = 60
   \<and> vault_autolock_check ref_libs 0 (idle_world\<lparr>clock := 61\<rparr>)
   \<and> (case vault_menu ref_libs idle_world of
         Return u w' \<Rightarrow>
           event_log w' = [AddedLogin, LockedManually] \<and> clock w' = 61
           \<and> (case vault_load ref_libs sample_key VAULT_FILE w' of
                 Return data w'' \<Rightarrow> map_option length (data_items data) = Some 2
               | Raised e w'' \<Rightarrow> False)
       | Raised e w' \<Rightarrow> False)"
  by code_simp


end
